theory Spec2Isabelle
  imports Complex_Main
begin

section \<open>Model promotion: the data model\<close>

text \<open>
  The development embeds \<^verbatim>\<open>src/models/promote_model.py\<close>: the two test classes
  \<^verbatim>\<open>SingleModelTest\<close> and \<^verbatim>\<open>ChallengerModelTest\<close>, \<^verbatim>\<open>log_promotion_status\<close>
  and the script's \<^verbatim>\<open>main\<close>.

  Numbers are Python floats in the source. They are modelled as \<^typ>\<open>real\<close>: every
  property below only compares two numbers with \<open><\<close> or \<open>>\<close>, and no arithmetic is
  done by the embedded code itself, so rounding plays no role. A NaN, which compares false with
  every number, is not a value of the model.

  Exceptions are values of type \<open>error\<close>; a computation that may raise returns
  \<open>error + 'a\<close> with \<open>Inl\<close> for the exception.
\<close>

datatype error =
    ValueError string
  | KeyError string
  | ArtifactDoesNoteExistError
  | Raised string
    \<comment> \<open>an exception of any other class, raised by a collaborator; the argument is the class name\<close>

fun error_class :: "error \<Rightarrow> string" where
  "error_class (ValueError msg) = ''ValueError''"
| "error_class (KeyError k) = ''KeyError''"
| "error_class ArtifactDoesNoteExistError = ''ArtifactDoesNoteExistError''"
| "error_class (Raised c) = c"

text \<open>
  A data frame is a list of named columns. \<^verbatim>\<open>test_data[target_col]\<close> raises
  \<^verbatim>\<open>KeyError\<close> when the column does not exist.
\<close>

type_synonym dataframe = "(string \<times> real list) list"

definition getitem :: "dataframe \<Rightarrow> string \<Rightarrow> error + real list" where
  "getitem df col = (case map_of df col of None \<Rightarrow> Inl (KeyError col) | Some ys \<Rightarrow> Inr ys)"

text \<open>
  A model is its \<^verbatim>\<open>predict\<close> method, which may raise. The regression evaluation
  \<^verbatim>\<open>RegressionEvaluation(y_true, y_pred).get_metrics()["mae"]\<close> lives in
  \<^verbatim>\<open>src/models/evaluation.py\<close>, which is not part of the embedded sources; the test
  classes take it as a parameter. \<^verbatim>\<open>str\<close> of a float, used by the f-strings, is a
  parameter as well.
\<close>

type_synonym predictor = "dataframe \<Rightarrow> error + real list"
type_synonym evaluation = "real list \<Rightarrow> real list \<Rightarrow> error + real"
type_synonym formatter = "real \<Rightarrow> string"

text \<open>
  \<^verbatim>\<open>predictions.min()\<close> on a numpy array: the least element, and a
  \<^verbatim>\<open>ValueError\<close> on an array of size zero.
\<close>

definition array_min :: "real list \<Rightarrow> error + real" where
  "array_min xs =
     (case xs of
        [] \<Rightarrow> Inl (ValueError ''zero-size array to reduction operation minimum which has no identity'')
      | y # ys \<Rightarrow> Inr (fold min ys y))"

section \<open>SingleModelTest\<close>

record single_model_test =
  smt_model :: predictor
  smt_test_data :: dataframe
  smt_target_col :: string
  max_mae :: real
  predictions :: "real list"
  model_mae :: real

definition SingleModelTest_calc_model_mae ::
  "evaluation \<Rightarrow> real list \<Rightarrow> dataframe \<Rightarrow> string \<Rightarrow> error + real" where
  "SingleModelTest_calc_model_mae ev preds test_data target_col =
     (case getitem test_data target_col of
        Inl e \<Rightarrow> Inl e
      | Inr y_true \<Rightarrow> ev y_true preds)"

definition SingleModelTest_init ::
  "evaluation \<Rightarrow> predictor \<Rightarrow> dataframe \<Rightarrow> string \<Rightarrow> real \<Rightarrow> error + single_model_test" where
  "SingleModelTest_init ev mdl test_data target_col mx =
     (case mdl test_data of
        Inl e \<Rightarrow> Inl e
      | Inr preds \<Rightarrow>
          (case SingleModelTest_calc_model_mae ev preds test_data target_col of
             Inl e \<Rightarrow> Inl e
           | Inr mae \<Rightarrow>
               Inr \<lparr>smt_model = mdl, smt_test_data = test_data, smt_target_col = target_col,
                    max_mae = mx, predictions = preds, model_mae = mae\<rparr>))"

definition model_has_ok_mae :: "single_model_test \<Rightarrow> bool" where
  "model_has_ok_mae t = (model_mae t < max_mae t)"

definition predictions_all_positive :: "single_model_test \<Rightarrow> error + bool" where
  "predictions_all_positive t =
     (case array_min (predictions t) of Inl e \<Rightarrow> Inl e | Inr mn \<Rightarrow> Inr (mn > 0))"

text \<open>
  \<^verbatim>\<open>all([self._model_has_ok_mae(), self._predictions_all_positive()])\<close>: the list is
  built before \<^verbatim>\<open>all\<close> runs, so both checks are evaluated and an exception of the
  second one escapes whatever the first one returned.
\<close>

definition model_passes_tests :: "single_model_test \<Rightarrow> error + bool" where
  "model_passes_tests t =
     (let ok_mae = model_has_ok_mae t in
      case predictions_all_positive t of
        Inl e \<Rightarrow> Inl e
      | Inr all_positive \<Rightarrow> Inr (ok_mae \<and> all_positive))"

text \<open>
  The \<^verbatim>\<open>message\<close> property tests \<^verbatim>\<open>self._model_has_ok_mae\<close> without calling it. The value
  tested is the bound method object, and Python's truth value of a method object is
  \<^verbatim>\<open>True\<close>, whatever the method would return.
\<close>

definition bound_method_truth :: "(single_model_test \<Rightarrow> bool) \<Rightarrow> single_model_test \<Rightarrow> bool" where
  "bound_method_truth method self = True"

definition SingleModelTest_message :: "formatter \<Rightarrow> single_model_test \<Rightarrow> error + string" where
  "SingleModelTest_message str t =
     (let mae_message =
            (if bound_method_truth model_has_ok_mae t
             then ''The model has MAE of '' @ str (model_mae t) @
                  '', which is under the max threshold of '' @ str (max_mae t)
             else ''The model has MAE of '' @ str (model_mae t) @
                  '', which is not below the max threshold of '' @ str (max_mae t))
      in case predictions_all_positive t of
           Inl e \<Rightarrow> Inl e
         | Inr all_positive \<Rightarrow>
             (let edge_case_message =
                    (if all_positive then ''The model passes all edge cases''
                     else ''The model does not pass all edge cases'')
              in Inr (mae_message @ ''. '' @ edge_case_message @ ''.'')))"

text \<open>
  The verdict of the single-model gate as \<^verbatim>\<open>main\<close> obtains it: construct the test
  object, then read its property \<^verbatim>\<open>model_passes_tests\<close>.
\<close>

definition single_model_gate ::
  "evaluation \<Rightarrow> predictor \<Rightarrow> dataframe \<Rightarrow> string \<Rightarrow> real \<Rightarrow> error + bool" where
  "single_model_gate ev mdl test_data target_col mx =
     (case SingleModelTest_init ev mdl test_data target_col mx of
        Inl e \<Rightarrow> Inl e
      | Inr single_model_test \<Rightarrow> model_passes_tests single_model_test)"

section \<open>ChallengerModelTest\<close>

record challenger_model_test =
  model_challenger :: predictor
  model_current :: predictor
  cmt_test_data :: dataframe
  cmt_target_col :: string
  model_challenger_mae :: real
  model_current_mae :: real

definition ChallengerModelTest_calc_model_mae ::
  "evaluation \<Rightarrow> predictor \<Rightarrow> dataframe \<Rightarrow> string \<Rightarrow> error + real" where
  "ChallengerModelTest_calc_model_mae ev mdl test_data target_col =
     (case mdl test_data of
        Inl e \<Rightarrow> Inl e
      | Inr preds \<Rightarrow>
          (case getitem test_data target_col of
             Inl e \<Rightarrow> Inl e
           | Inr y_true \<Rightarrow> ev y_true preds))"

definition ChallengerModelTest_init ::
  "evaluation \<Rightarrow> predictor \<Rightarrow> predictor \<Rightarrow> dataframe \<Rightarrow> string \<Rightarrow> error + challenger_model_test" where
  "ChallengerModelTest_init ev mdl_challenger mdl_current test_data target_col =
     (case ChallengerModelTest_calc_model_mae ev mdl_challenger test_data target_col of
        Inl e \<Rightarrow> Inl e
      | Inr mae_challenger \<Rightarrow>
          (case ChallengerModelTest_calc_model_mae ev mdl_current test_data target_col of
             Inl e \<Rightarrow> Inl e
           | Inr mae_current \<Rightarrow>
               Inr \<lparr>model_challenger = mdl_challenger, model_current = mdl_current,
                    cmt_test_data = test_data, cmt_target_col = target_col,
                    model_challenger_mae = mae_challenger, model_current_mae = mae_current\<rparr>))"

definition challenger_model_is_better :: "challenger_model_test \<Rightarrow> bool" where
  "challenger_model_is_better c = (model_challenger_mae c < model_current_mae c)"

definition ChallengerModelTest_message :: "formatter \<Rightarrow> challenger_model_test \<Rightarrow> string" where
  "ChallengerModelTest_message str c =
     (let mae_message =
            (if challenger_model_is_better c
             then ''Challenger model has MAE of '' @ str (model_challenger_mae c) @
                  '', which is better than the current models performance of '' @
                  str (model_current_mae c)
             else ''Challenger model has MAE of '' @ str (model_challenger_mae c) @
                  '', which is worse than the current models performance of '' @
                  str (model_current_mae c))
      in mae_message @ ''.'')"

section \<open>The promotion script\<close>

text \<open>
  The effects of a run are recorded, in order, as a list of events: the start of the
  tracking run (\<^verbatim>\<open>wandb.init\<close>), the lines written to the logger, the artifacts
  declared as used (\<^verbatim>\<open>run.use_artifact\<close>), the call of \<^verbatim>\<open>promote_to_prod()\<close> and the
  alert sent (\<^verbatim>\<open>wandb.alert\<close>). Models and artifacts are named by their version.
\<close>

datatype AlertLevel = INFO | WARN

datatype event =
    WandbInit string string string
  | LoggerInfo string
  | LoggerWarning string
  | UseArtifact string
  | PromoteToProd string
  | WandbAlert string string AlertLevel

fun is_alert :: "event \<Rightarrow> bool" where
  "is_alert (WandbAlert title body lvl) = True"
| "is_alert ev = False"

fun is_promotion :: "event \<Rightarrow> bool" where
  "is_promotion (PromoteToProd v) = True"
| "is_promotion ev = False"

fun is_use_artifact :: "event \<Rightarrow> bool" where
  "is_use_artifact (UseArtifact v) = True"
| "is_use_artifact ev = False"

definition log_promotion_status :: "string \<Rightarrow> string \<Rightarrow> bool \<Rightarrow> event list" where
  "log_promotion_status model_version additional_info model_to_be_promoted =
     (if model_to_be_promoted then
        (let message = ''Trained model version '' @ model_version @ '' promoted.''
         in [LoggerInfo (message @ '' '' @ additional_info),
             WandbAlert message additional_info INFO])
      else
        (let message = ''Trained model with version '' @ model_version @ '' not promoted.''
         in [LoggerWarning (message @ '' '' @ additional_info),
             WandbAlert message additional_info WARN]))"

text \<open>
  A loaded model, as returned by \<^verbatim>\<open>get_model\<close>: the predictor \<^verbatim>\<open>.model\<close>, the version
  \<^verbatim>\<open>.model_meta_data.version\<close> and the aliases \<^verbatim>\<open>.wandb_artifact.aliases\<close>.
\<close>

record loaded_model =
  model :: predictor
  version :: string
  aliases :: "string list"

text \<open>The entries of the hydra configuration that \<^verbatim>\<open>main\<close> reads.\<close>

record config =
  project_name :: string
  experiment_name :: string
  test_data_name :: string
  model_name :: string
  target_column :: string
  max_mae_to_promote :: real

text \<open>
  The collaborators of \<^verbatim>\<open>main\<close> that are imported from modules outside the embedded
  sources (\<^verbatim>\<open>src.utils.artifacts\<close>, \<^verbatim>\<open>src.utils.models\<close>, \<^verbatim>\<open>src.models.evaluation\<close>)
  are parameters: \<^verbatim>\<open>read_dataframe_artifact(run, name, version)\<close>,
  \<^verbatim>\<open>get_model(project_name, model_name, model_version)\<close>, the evaluation and the
  formatting of floats. Both loads may raise.
\<close>

record collaborators =
  read_dataframe_artifact :: "string \<Rightarrow> string \<Rightarrow> error + dataframe"
  get_model :: "string \<Rightarrow> string \<Rightarrow> string \<Rightarrow> error + loaded_model"
  get_metrics_mae :: evaluation
  str_float :: formatter

text \<open>
  \<^verbatim>\<open>main\<close> returns nothing in the source; the model returns the events of the run and
  either the exception that ended it or the final value of the local variable
  \<^verbatim>\<open>model_to_be_promoted\<close>.

  \<^verbatim>\<open>except ArtifactDoesNoteExistError\<close> turns that one exception of the second
  \<^verbatim>\<open>get_model\<close> call into \<^verbatim>\<open>None\<close>; \<^verbatim>\<open>not loaded_model_current\<close> is then the test for
  \<^verbatim>\<open>None\<close>.
\<close>

definition main :: "collaborators \<Rightarrow> config \<Rightarrow> event list \<times> (error + bool)" where
  "main env cfg =
     (let tr0 = [WandbInit (project_name cfg) ''test_and_promote_model'' (experiment_name cfg),
                 LoggerInfo ''Load hold out test data.'']
      in
      case read_dataframe_artifact env (test_data_name cfg) ''latest'' of
        Inl e \<Rightarrow> (tr0, Inl e)
      | Inr test_data \<Rightarrow>
      (let tr1 = tr0 @ [LoggerInfo ''Loading latest trained model.'']
       in
       case get_model env (project_name cfg) (model_name cfg) ''latest'' of
         Inl e \<Rightarrow> (tr1, Inl e)
       | Inr loaded_model_challenger \<Rightarrow>
       if ''prod'' \<in> set (aliases loaded_model_challenger) then
         (tr1, Inl (ValueError
            ''Latest trained model is already the production model. Something is wrong.''))
       else
       (let tr2 = tr1 @ [LoggerInfo ''Loading current prod model if it exists.'']
        in
        case (case get_model env (project_name cfg) (model_name cfg) ''prod'' of
                Inl e \<Rightarrow> if e = ArtifactDoesNoteExistError then Inr None else Inl e
              | Inr m \<Rightarrow> Inr (Some m)) of
          Inl e \<Rightarrow> (tr2, Inl e)
        | Inr loaded_model_current \<Rightarrow>
        (let tr3 = tr2 @ [LoggerInfo ''Running single model tests.'',
                          UseArtifact (version loaded_model_challenger)]
         in
         case SingleModelTest_init (get_metrics_mae env) (model loaded_model_challenger)
                test_data (target_column cfg) (max_mae_to_promote cfg) of
           Inl e \<Rightarrow> (tr3, Inl e)
         | Inr single_model_test \<Rightarrow>
         (case loaded_model_current of
            None \<Rightarrow>
              (case model_passes_tests single_model_test of
                 Inl e \<Rightarrow> (tr3, Inl e)
               | Inr model_to_be_promoted \<Rightarrow>
               (let tr4 = tr3 @ (if model_to_be_promoted
                                 then [PromoteToProd (version loaded_model_challenger)] else [])
                in
                case SingleModelTest_message (str_float env) single_model_test of
                  Inl e \<Rightarrow> (tr4, Inl e)
                | Inr single_message \<Rightarrow>
                    (tr4 @ log_promotion_status (version loaded_model_challenger)
                             single_message model_to_be_promoted,
                     Inr model_to_be_promoted)))
          | Some current \<Rightarrow>
              (let tr4 = tr3 @ [LoggerInfo ''Running model challenger comparison tests.'',
                                UseArtifact (version current)]
               in
               case ChallengerModelTest_init (get_metrics_mae env)
                      (model loaded_model_challenger) (model current)
                      test_data (target_column cfg) of
                 Inl e \<Rightarrow> (tr4, Inl e)
               | Inr challenger_model_test \<Rightarrow>
               (case model_passes_tests single_model_test of
                  Inl e \<Rightarrow> (tr4, Inl e)
                | Inr passes \<Rightarrow>
                (let model_to_be_promoted =
                       (passes \<and> challenger_model_is_better challenger_model_test);
                     tr5 = tr4 @ (if model_to_be_promoted
                                  then [PromoteToProd (version loaded_model_challenger)] else [])
                 in
                 case SingleModelTest_message (str_float env) single_model_test of
                   Inl e \<Rightarrow> (tr5, Inl e)
                 | Inr single_message \<Rightarrow>
                     (tr5 @ log_promotion_status (version loaded_model_challenger)
                              (single_message @ '' '' @
                               ChallengerModelTest_message (str_float env) challenger_model_test)
                              model_to_be_promoted,
                      Inr model_to_be_promoted)))))))))"

section \<open>Sample collaborators\<close>

text \<open>
  Modelled from the spec: the evaluation of \<^verbatim>\<open>src/models/evaluation.py\<close>
  (\<^verbatim>\<open>RegressionEvaluation\<close>) is missing from the embedded sources. The spec (4.1) gives it
  two numeric sequences of equal length, has it fail with \<^verbatim>\<open>ShapeMismatchError\<close> when
  the lengths differ and has it compute the mean absolute error. The spec gives no value
  for two empty sequences; the definition raises there, as a quotient by the length zero does in
  Python, so that no statement leans on a value for it. It is only used to build concrete
  runs; every general theorem below holds for any evaluation.
\<close>

definition mean_absolute_error :: evaluation where
  "mean_absolute_error y_true y_pred =
     (if length y_true \<noteq> length y_pred then Inl (Raised ''ShapeMismatchError'')
      else if y_true = [] then Inl (Raised ''ZeroDivisionError'')
      else Inr (sum_list (map (\<lambda>(y, p). \<bar>y - p\<bar>) (zip y_true y_pred)) / real (length y_true)))"

text \<open>A model that predicts the same value for every row of the column \<open>''x''\<close>.\<close>

definition constant_model :: "real \<Rightarrow> predictor" where
  "constant_model v df =
     (case map_of df ''x'' of
        None \<Rightarrow> Inl (KeyError ''x'')
      | Some xs \<Rightarrow> Inr (map (\<lambda>x. v) xs))"

text \<open>
  A formatter that prints the integral part of a number below one hundred in decimal.
\<close>

definition show_floor :: formatter where
  "show_floor r =
     (if r < 0 then ''negative'' else
      (let n = nat \<lfloor>r\<rfloor> in
       if n < 10 then [''0123456789'' ! n]
       else if n < 100 then [''0123456789'' ! (n div 10), ''0123456789'' ! (n mod 10)]
       else ''large''))"

text \<open>
  A test set of two rows with the feature \<open>''x''\<close> and the target \<open>''y''\<close>, and the same
  table without rows.
\<close>

definition sample_data :: dataframe where
  "sample_data = [(''x'', [1, 2]), (''y'', [10, 20])]"

definition empty_data :: dataframe where
  "empty_data = [(''x'', []), (''y'', [])]"

text \<open>
  Collaborators that answer every load of the test data with \<open>td\<close>, every load of the
  version \<open>''prod''\<close> with \<open>current\<close> and every other load of a model with \<open>latest\<close>.
\<close>

definition sample_collaborators ::
  "(error + dataframe) \<Rightarrow> (error + loaded_model) \<Rightarrow> (error + loaded_model) \<Rightarrow> collaborators" where
  "sample_collaborators td latest current =
     \<lparr>read_dataframe_artifact = (\<lambda>name ver. td),
      get_model = (\<lambda>project name ver. if ver = ''prod'' then current else latest),
      get_metrics_mae = mean_absolute_error,
      str_float = show_floor\<rparr>"

definition sample_config :: config where
  "sample_config =
     \<lparr>project_name = ''p'', experiment_name = ''e'', test_data_name = ''t'',
      model_name = ''m'', target_column = ''y'', max_mae_to_promote = 10\<rparr>"

definition challenger :: "real \<Rightarrow> loaded_model" where
  "challenger v = \<lparr>model = constant_model v, version = ''v2'', aliases = [''latest'']\<rparr>"

definition incumbent :: "real \<Rightarrow> loaded_model" where
  "incumbent v = \<lparr>model = constant_model v, version = ''v1'', aliases = [''prod'']\<rparr>"

text \<open>A model whose \<^verbatim>\<open>predict\<close> raises, and a production model that holds it.\<close>

definition unfitted_model :: predictor where
  "unfitted_model df = Inl (Raised ''NotFittedError'')"

definition unfitted_incumbent :: loaded_model where
  "unfitted_incumbent = \<lparr>model = unfitted_model, version = ''v1'', aliases = [''prod'']\<rparr>"

section \<open>Properties of the gates\<close>

lemma fold_min_positive:
  "(0 < fold min ps (p::real)) = (0 < p \<and> (\<forall>q \<in> set ps. 0 < q))"
  by (induction ps arbitrary: p) auto

lemma array_min_positive:
  "ps \<noteq> [] \<Longrightarrow> \<exists>mn. array_min ps = Inr mn \<and> (0 < mn) = (\<forall>q \<in> set ps. 0 < q)"
  by (cases ps) (simp_all add: array_min_def fold_min_positive)

lemma sample_single_init:
  "SingleModelTest_init mean_absolute_error (constant_model v) sample_data ''y'' mx =
     Inr \<lparr>smt_model = constant_model v, smt_test_data = sample_data, smt_target_col = ''y'',
          max_mae = mx, predictions = [v, v],
          model_mae = (\<bar>10 - v\<bar> + \<bar>20 - v\<bar>) / 2\<rparr>"
  by (simp add: SingleModelTest_init_def SingleModelTest_calc_model_mae_def getitem_def
      sample_data_def constant_model_def mean_absolute_error_def)

lemma sample_challenger_mae:
  "ChallengerModelTest_calc_model_mae mean_absolute_error (constant_model v) sample_data ''y'' =
     Inr ((\<bar>10 - v\<bar> + \<bar>20 - v\<bar>) / 2)"
  by (simp add: ChallengerModelTest_calc_model_mae_def getitem_def
      sample_data_def constant_model_def mean_absolute_error_def)

lemma sample_challenger_init:
  "ChallengerModelTest_init mean_absolute_error (constant_model v) (constant_model w)
     sample_data ''y'' =
     Inr \<lparr>model_challenger = constant_model v, model_current = constant_model w,
          cmt_test_data = sample_data, cmt_target_col = ''y'',
          model_challenger_mae = (\<bar>10 - v\<bar> + \<bar>20 - v\<bar>) / 2,
          model_current_mae = (\<bar>10 - w\<bar> + \<bar>20 - w\<bar>) / 2\<rparr>"
  by (simp add: ChallengerModelTest_init_def sample_challenger_mae)

text \<open>
  Claim C2. For a model that returns at least one prediction for the test set (the test
  set is not empty), a target column that exists and an evaluation that returns the MAE
  of these predictions against that column, the single-model gate returns a verdict, and
  the verdict is: the MAE is strictly below the threshold and every prediction is strictly
  positive. So an MAE at or above the threshold fails whatever the predictions are, and
  one prediction that is not positive fails however small the MAE is.
\<close>

theorem single_model_gate_verdict:
  assumes "mdl td = Inr ps"
    and "ps \<noteq> []"
    and "getitem td col = Inr ys"
    and "ev ys ps = Inr mae"
  shows "single_model_gate ev mdl td col mx = Inr (mae < mx \<and> (\<forall>p \<in> set ps. 0 < p))"
proof -
  from assms(2) obtain mn where mn: "array_min ps = Inr mn"
    and pos: "(0 < mn) = (\<forall>q \<in> set ps. 0 < q)"
    using array_min_positive by blast
  have "SingleModelTest_init ev mdl td col mx =
          Inr \<lparr>smt_model = mdl, smt_test_data = td, smt_target_col = col,
               max_mae = mx, predictions = ps, model_mae = mae\<rparr>"
    using assms by (simp add: SingleModelTest_init_def SingleModelTest_calc_model_mae_def)
  then show ?thesis
    using mn pos
    by (simp add: single_model_gate_def model_passes_tests_def predictions_all_positive_def
        model_has_ok_mae_def)
qed

text \<open>
  The theorem at three runs of the gate over the sample data with the mean absolute error:
  the model predicting 15 has MAE 5 under the threshold 10 and passes, the model
  predicting 30 has MAE 15 against the threshold 10 and fails, and the model predicting
  \<open>-1\<close> fails under the generous threshold 100.
\<close>

theorem single_model_gate_verdict_witness:
  "single_model_gate mean_absolute_error (constant_model 15) sample_data ''y'' 10 = Inr True
   \<and> single_model_gate mean_absolute_error (constant_model 30) sample_data ''y'' 10 = Inr False
   \<and> single_model_gate mean_absolute_error (constant_model (-1)) sample_data ''y'' 100 =
       Inr False"
  using single_model_gate_verdict
      [where mdl = "constant_model 15" and td = sample_data and ps = "[15, 15]"
         and col = "''y''" and ys = "[10, 20]" and ev = mean_absolute_error and mae = 5
         and mx = 10]
    single_model_gate_verdict
      [where mdl = "constant_model 30" and td = sample_data and ps = "[30, 30]"
         and col = "''y''" and ys = "[10, 20]" and ev = mean_absolute_error and mae = 15
         and mx = 10]
    single_model_gate_verdict
      [where mdl = "constant_model (-1)" and td = sample_data and ps = "[-1, -1]"
         and col = "''y''" and ys = "[10, 20]" and ev = mean_absolute_error and mae = 16
         and mx = 100]
  by (simp add: constant_model_def sample_data_def getitem_def mean_absolute_error_def)

text \<open>
  Claim C3. Let the challenger and the current model each return predictions for the same
  test data, and let the evaluation return the MAE \<open>a\<close> of the challenger's predictions
  and the MAE \<open>b\<close> of the current model's predictions against the same target column.
  Then the challenger test is constructed, and its verdict is \<open>a < b\<close>: the gate passes
  exactly when the challenger's MAE is strictly below the current model's, and fails on a
  tie.
\<close>

theorem challenger_gate_strict:
  assumes "mc td = Inr pa"
    and "mi td = Inr pb"
    and "getitem td col = Inr ys"
    and "ev ys pa = Inr a"
    and "ev ys pb = Inr b"
  shows "\<exists>c. ChallengerModelTest_init ev mc mi td col = Inr c
           \<and> model_challenger_mae c = a
           \<and> model_current_mae c = b
           \<and> challenger_model_is_better c = (a < b)
           \<and> (a = b \<longrightarrow> \<not> challenger_model_is_better c)"
  using assms
  by (simp add: ChallengerModelTest_init_def ChallengerModelTest_calc_model_mae_def
      challenger_model_is_better_def)

text \<open>
  The theorem at two constructions over the sample data with the mean absolute error: a
  challenger predicting 21 (MAE 6) against a current model predicting 23 (MAE 8) is better,
  and a challenger predicting 15 against a current model predicting 12 (MAE 5 both) is not.
\<close>

theorem challenger_gate_strict_witness:
  "(\<exists>c. ChallengerModelTest_init mean_absolute_error (constant_model 21) (constant_model 23)
           sample_data ''y'' = Inr c
        \<and> model_challenger_mae c = 6 \<and> model_current_mae c = 8
        \<and> challenger_model_is_better c)
   \<and> (\<exists>c. ChallengerModelTest_init mean_absolute_error (constant_model 15) (constant_model 12)
           sample_data ''y'' = Inr c
        \<and> model_challenger_mae c = 5 \<and> model_current_mae c = 5
        \<and> \<not> challenger_model_is_better c)"
  using challenger_gate_strict
      [where mc = "constant_model 21" and mi = "constant_model 23" and td = sample_data
         and pa = "[21, 21]" and pb = "[23, 23]" and col = "''y''" and ys = "[10, 20]"
         and ev = mean_absolute_error and a = 6 and b = 8]
    challenger_gate_strict
      [where mc = "constant_model 15" and mi = "constant_model 12" and td = sample_data
         and pa = "[15, 15]" and pb = "[12, 12]" and col = "''y''" and ys = "[10, 20]"
         and ev = mean_absolute_error and a = 5 and b = 5]
  by (simp add: constant_model_def sample_data_def getitem_def mean_absolute_error_def)

text \<open>
  Claim C10. When the two MAEs are equal, the challenger gate's message takes the
  wording \<open>worse than\<close>.
\<close>

theorem challenger_message_tie:
  assumes "ChallengerModelTest_init ev mc mi td col = Inr c"
    and "model_challenger_mae c = model_current_mae c"
  shows "ChallengerModelTest_message str c =
           ''Challenger model has MAE of '' @ str (model_challenger_mae c) @
           '', which is worse than the current models performance of '' @
           str (model_current_mae c) @ ''.''"
  using assms(2) by (simp add: ChallengerModelTest_message_def challenger_model_is_better_def)

text \<open>
  The theorem at the tie of 5 against 5.
\<close>

theorem challenger_message_tie_witness:
  "ChallengerModelTest_message show_floor
     \<lparr>model_challenger = constant_model 15, model_current = constant_model 12,
      cmt_test_data = sample_data, cmt_target_col = ''y'',
      model_challenger_mae = 5, model_current_mae = 5\<rparr> =
   ''Challenger model has MAE of 5, which is worse than the current models performance of 5.''"
  using challenger_message_tie [OF sample_challenger_init [of 15 12], of show_floor]
  by (simp add: show_floor_def)

text \<open>The message has two wordings only, chosen by the verdict.\<close>

lemma challenger_message_two_wordings:
  "ChallengerModelTest_message str c =
     ''Challenger model has MAE of '' @ str (model_challenger_mae c) @
     '', which is '' @ (if challenger_model_is_better c then ''better'' else ''worse'') @
     '' than the current models performance of '' @ str (model_current_mae c) @ ''.''"
  by (simp add: ChallengerModelTest_message_def)

text \<open>
  Claim C7. The message of the single-model gate does not follow the MAE check: for a
  model with MAE 15 and the threshold 10 the check \<^verbatim>\<open>_model_has_ok_mae()\<close> is false,
  and the message still says that the MAE is under the threshold.
\<close>

theorem single_message_claims_under_threshold:
  "model_has_ok_mae
     \<lparr>smt_model = constant_model 30, smt_test_data = sample_data, smt_target_col = ''y'',
      max_mae = 10, predictions = [30, 30], model_mae = 15\<rparr> = False
   \<and> SingleModelTest_message show_floor
     \<lparr>smt_model = constant_model 30, smt_test_data = sample_data, smt_target_col = ''y'',
      max_mae = 10, predictions = [30, 30], model_mae = 15\<rparr> =
     Inr ''The model has MAE of 15, which is under the max threshold of 10. The model passes all edge cases.''"
  by (simp add: model_has_ok_mae_def SingleModelTest_message_def bound_method_truth_def
      predictions_all_positive_def array_min_def show_floor_def)

text \<open>
  In general, every message the gate produces has the wording \<open>under the max threshold\<close>;
  the other branch is never taken.
\<close>

lemma single_message_wording:
  "SingleModelTest_message str t = Inr m \<Longrightarrow>
     \<exists>edge. m = ''The model has MAE of '' @ str (model_mae t) @
       '', which is under the max threshold of '' @ str (max_mae t) @ ''. '' @ edge @ ''.''"
  by (auto simp: SingleModelTest_message_def bound_method_truth_def Let_def split: sum.splits)

text \<open>
  Claim C8, as stated, fails. On the test set without rows, with an evaluation that
  returns a value, the test object is constructed and reading the verdict raises the
  \<^verbatim>\<open>ValueError\<close> of \<^verbatim>\<open>min()\<close> on an empty array; its class is not
  \<^verbatim>\<open>InsufficientDataError\<close>.
\<close>

theorem empty_test_set_counterexample:
  "single_model_gate (\<lambda>y_true y_pred. Inr 0) (constant_model 15) empty_data ''y'' 10 =
     Inl (ValueError ''zero-size array to reduction operation minimum which has no identity'')
   \<and> error_class (ValueError ''zero-size array to reduction operation minimum which has no identity'')
       \<noteq> ''InsufficientDataError''"
  by (simp add: single_model_gate_def SingleModelTest_init_def SingleModelTest_calc_model_mae_def
      getitem_def empty_data_def constant_model_def model_passes_tests_def
      predictions_all_positive_def array_min_def)

text \<open>
  Claim C8, amended. When the model returns no predictions for the test set (or raises),
  the single-model gate yields no verdict for any evaluation, target column and threshold.
  It ends with the exception of the prediction, else with the exception of the evaluation,
  else with the \<^verbatim>\<open>ValueError\<close> of the minimum of an empty array. The gate itself has no
  check for an empty test set.
\<close>

theorem empty_predictions_no_verdict:
  assumes "\<forall>ps. mdl td = Inr ps \<longrightarrow> ps = []"
  shows "(\<exists>e. single_model_gate ev mdl td col mx = Inl e)
       \<and> single_model_gate ev mdl td col mx =
           (case mdl td of
              Inl e \<Rightarrow> Inl e
            | Inr ps \<Rightarrow>
                (case SingleModelTest_calc_model_mae ev [] td col of
                   Inl e \<Rightarrow> Inl e
                 | Inr mae \<Rightarrow>
                     Inl (ValueError
                       ''zero-size array to reduction operation minimum which has no identity'')))"
proof (cases "mdl td")
  case (Inl e)
  then show ?thesis
    by (simp add: single_model_gate_def SingleModelTest_init_def)
next
  case (Inr ps)
  with assms have ps: "mdl td = Inr []" by simp
  show ?thesis
  proof (cases "SingleModelTest_calc_model_mae ev [] td col")
    case (Inl e)
    with ps show ?thesis
      by (simp add: single_model_gate_def SingleModelTest_init_def)
  next
    case (Inr mae)
    with ps show ?thesis
      by (simp add: single_model_gate_def SingleModelTest_init_def model_passes_tests_def
          predictions_all_positive_def array_min_def)
  qed
qed

text \<open>
  The theorem at the test set without rows and the mean absolute error as evaluation.
\<close>

theorem empty_predictions_no_verdict_witness:
  "constant_model 15 empty_data = Inr []
   \<and> single_model_gate mean_absolute_error (constant_model 15) empty_data ''y'' 10 =
       Inl (Raised ''ZeroDivisionError'')"
proof -
  have h: "\<forall>ps. constant_model 15 empty_data = Inr ps \<longrightarrow> ps = []"
    by (simp add: constant_model_def empty_data_def)
  have "SingleModelTest_calc_model_mae mean_absolute_error [] empty_data ''y'' =
          Inl (Raised ''ZeroDivisionError'')"
    by (simp add: SingleModelTest_calc_model_mae_def getitem_def empty_data_def
        mean_absolute_error_def)
  moreover have "constant_model 15 empty_data = Inr []"
    by (simp add: constant_model_def empty_data_def)
  ultimately show ?thesis
    using h empty_predictions_no_verdict
        [where mdl = "constant_model 15" and td = empty_data and ev = mean_absolute_error
           and col = "''y''" and mx = 10]
    by simp
qed

section \<open>Properties of the promotion script\<close>

lemma message_defined:
  "model_passes_tests t = Inr b \<Longrightarrow> \<exists>m. SingleModelTest_message str t = Inr m"
  by (auto simp: model_passes_tests_def SingleModelTest_message_def Let_def split: sum.splits)

lemma main_test_data_fails:
  assumes "read_dataframe_artifact env (test_data_name cfg) ''latest'' = Inl e"
  shows "main env cfg =
           ([WandbInit (project_name cfg) ''test_and_promote_model'' (experiment_name cfg),
             LoggerInfo ''Load hold out test data.''], Inl e)"
  using assms by (simp add: main_def)

lemma main_challenger_fails:
  assumes "read_dataframe_artifact env (test_data_name cfg) ''latest'' = Inr td"
    and "get_model env (project_name cfg) (model_name cfg) ''latest'' = Inl e"
  shows "main env cfg =
           ([WandbInit (project_name cfg) ''test_and_promote_model'' (experiment_name cfg),
             LoggerInfo ''Load hold out test data.'',
             LoggerInfo ''Loading latest trained model.''], Inl e)"
  using assms by (simp add: main_def)


lemma main_current_fails:
  assumes "read_dataframe_artifact env (test_data_name cfg) ''latest'' = Inr td"
    and "get_model env (project_name cfg) (model_name cfg) ''latest'' = Inr ch"
    and "''prod'' \<notin> set (aliases ch)"
    and "get_model env (project_name cfg) (model_name cfg) ''prod'' = Inl e"
    and "e \<noteq> ArtifactDoesNoteExistError"
  shows "main env cfg =
           ([WandbInit (project_name cfg) ''test_and_promote_model'' (experiment_name cfg),
             LoggerInfo ''Load hold out test data.'',
             LoggerInfo ''Loading latest trained model.'',
             LoggerInfo ''Loading current prod model if it exists.''], Inl e)"
  using assms by (simp add: main_def)

lemma main_no_incumbent_result:
  assumes "read_dataframe_artifact env (test_data_name cfg) ''latest'' = Inr td"
    and "get_model env (project_name cfg) (model_name cfg) ''latest'' = Inr ch"
    and "''prod'' \<notin> set (aliases ch)"
    and "get_model env (project_name cfg) (model_name cfg) ''prod'' = Inl ArtifactDoesNoteExistError"
  shows "snd (main env cfg) =
           single_model_gate (get_metrics_mae env) (model ch) td (target_column cfg)
             (max_mae_to_promote cfg)"
proof (cases "SingleModelTest_init (get_metrics_mae env) (model ch) td (target_column cfg)
                (max_mae_to_promote cfg)")
  case (Inl e)
  with assms show ?thesis
    by (simp add: main_def single_model_gate_def)
next
  case init: (Inr t)
  show ?thesis
  proof (cases "model_passes_tests t")
    case (Inl e)
    with assms init show ?thesis
      by (simp add: main_def single_model_gate_def)
  next
    case (Inr b)
    then obtain m where "SingleModelTest_message (str_float env) t = Inr m"
      using message_defined by blast
    with assms init Inr show ?thesis
      by (simp add: main_def single_model_gate_def)
  qed
qed

lemma main_incumbent_result:
  assumes "read_dataframe_artifact env (test_data_name cfg) ''latest'' = Inr td"
    and "get_model env (project_name cfg) (model_name cfg) ''latest'' = Inr ch"
    and "''prod'' \<notin> set (aliases ch)"
    and "get_model env (project_name cfg) (model_name cfg) ''prod'' = Inr cur"
  shows "snd (main env cfg) =
           (case SingleModelTest_init (get_metrics_mae env) (model ch) td (target_column cfg)
                   (max_mae_to_promote cfg) of
              Inl e \<Rightarrow> Inl e
            | Inr t \<Rightarrow>
                (case ChallengerModelTest_init (get_metrics_mae env) (model ch) (model cur) td
                        (target_column cfg) of
                   Inl e \<Rightarrow> Inl e
                 | Inr c \<Rightarrow>
                     (case model_passes_tests t of
                        Inl e \<Rightarrow> Inl e
                      | Inr passes \<Rightarrow> Inr (passes \<and> challenger_model_is_better c))))"
proof (cases "SingleModelTest_init (get_metrics_mae env) (model ch) td (target_column cfg)
                (max_mae_to_promote cfg)")
  case (Inl e)
  with assms show ?thesis
    by (simp add: main_def)
next
  case init: (Inr t)
  show ?thesis
  proof (cases "ChallengerModelTest_init (get_metrics_mae env) (model ch) (model cur) td
                  (target_column cfg)")
    case (Inl e)
    with assms init show ?thesis
      by (simp add: main_def)
  next
    case cinit: (Inr c)
    show ?thesis
    proof (cases "model_passes_tests t")
      case (Inl e)
      with assms init cinit show ?thesis
        by (simp add: main_def)
    next
      case (Inr b)
      then obtain m where "SingleModelTest_message (str_float env) t = Inr m"
        using message_defined by blast
      with assms init cinit Inr show ?thesis
        by (simp add: main_def Let_def)
    qed
  qed
qed

text \<open>
  Claim C1. When the test data and the challenger are loaded and the challenger does not
  carry the alias \<open>prod\<close>: without a production model the outcome of the run is the
  verdict of the single-model gate; with a production model the decision is the
  conjunction of the single-model verdict and the challenger verdict. In the second case
  the challenger test is constructed, and so both of its MAEs are computed, before the
  single-model verdict is read: an exception of either gate ends the run whatever the
  other gate would say.
\<close>

theorem promotion_decision:
  assumes "read_dataframe_artifact env (test_data_name cfg) ''latest'' = Inr td"
    and "get_model env (project_name cfg) (model_name cfg) ''latest'' = Inr ch"
    and "''prod'' \<notin> set (aliases ch)"
  shows "(get_model env (project_name cfg) (model_name cfg) ''prod'' = Inl ArtifactDoesNoteExistError
            \<longrightarrow> snd (main env cfg) =
                  single_model_gate (get_metrics_mae env) (model ch) td (target_column cfg)
                    (max_mae_to_promote cfg))
       \<and> (\<forall>cur. get_model env (project_name cfg) (model_name cfg) ''prod'' = Inr cur
            \<longrightarrow> snd (main env cfg) =
                  (case SingleModelTest_init (get_metrics_mae env) (model ch) td
                          (target_column cfg) (max_mae_to_promote cfg) of
                     Inl e \<Rightarrow> Inl e
                   | Inr t \<Rightarrow>
                       (case ChallengerModelTest_init (get_metrics_mae env) (model ch)
                               (model cur) td (target_column cfg) of
                          Inl e \<Rightarrow> Inl e
                        | Inr c \<Rightarrow>
                            (case model_passes_tests t of
                               Inl e \<Rightarrow> Inl e
                             | Inr passes \<Rightarrow> Inr (passes \<and> challenger_model_is_better c)))))"
  using main_no_incumbent_result [OF assms] main_incumbent_result [OF assms]
  by blast


lemma sample_loads:
  "read_dataframe_artifact (sample_collaborators td latest current) name ver = td"
  "get_model (sample_collaborators td latest current) project name ''latest'' = latest"
  "get_model (sample_collaborators td latest current) project name ''prod'' = current"
  "get_metrics_mae (sample_collaborators td latest current) = mean_absolute_error"
  "str_float (sample_collaborators td latest current) = show_floor"
  by (simp_all add: sample_collaborators_def)

lemma sample_models:
  "model (challenger v) = constant_model v" "version (challenger v) = ''v2''"
  "aliases (challenger v) = [''latest'']"
  "model (incumbent v) = constant_model v" "version (incumbent v) = ''v1''"
  "aliases (incumbent v) = [''prod'']"
  by (simp_all add: challenger_def incumbent_def)

lemma sample_config_fields:
  "project_name sample_config = ''p''" "experiment_name sample_config = ''e''"
  "test_data_name sample_config = ''t''" "model_name sample_config = ''m''"
  "target_column sample_config = ''y''" "max_mae_to_promote sample_config = 10"
  by (simp_all add: sample_config_def)

lemma sample_unfitted_init:
  "ChallengerModelTest_init mean_absolute_error (constant_model v) unfitted_model
     sample_data ''y'' = Inl (Raised ''NotFittedError'')"
  by (simp add: ChallengerModelTest_init_def sample_challenger_mae)
    (simp add: ChallengerModelTest_calc_model_mae_def unfitted_model_def)

lemma sample_passes:
  "model_passes_tests
     \<lparr>smt_model = m, smt_test_data = d, smt_target_col = c,
      max_mae = mx, predictions = [v, v], model_mae = a\<rparr> = Inr (a < mx \<and> 0 < v)"
  by (auto simp: model_passes_tests_def predictions_all_positive_def array_min_def
      model_has_ok_mae_def)

lemma sample_message:
  "SingleModelTest_message str
     \<lparr>smt_model = m, smt_test_data = d, smt_target_col = c,
      max_mae = mx, predictions = [v, v], model_mae = a\<rparr> =
   Inr (''The model has MAE of '' @ str a @ '', which is under the max threshold of '' @ str mx @
        ''. '' @ (if 0 < v then ''The model passes all edge cases''
                  else ''The model does not pass all edge cases'') @ ''.'')"
  by (simp add: SingleModelTest_message_def predictions_all_positive_def array_min_def
      bound_method_truth_def)

lemma sample_gate:
  "single_model_gate mean_absolute_error (constant_model v) sample_data ''y'' mx =
     Inr ((\<bar>10 - v\<bar> + \<bar>20 - v\<bar>) / 2 < mx \<and> 0 < v)"
  by (simp add: single_model_gate_def sample_single_init sample_passes)

text \<open>
  The theorem at five runs: no production model with MAE 5 and with MAE 15 against the
  threshold 10; a production model with MAE 8 against a challenger with MAE 6, and with
  MAE 6 against a challenger with MAE 8; and a production model whose prediction raises,
  with a challenger that fails the single-model gate.
\<close>

theorem promotion_decision_witness:
  "snd (main (sample_collaborators (Inr sample_data) (Inr (challenger 15))
               (Inl ArtifactDoesNoteExistError)) sample_config) = Inr True
   \<and> snd (main (sample_collaborators (Inr sample_data) (Inr (challenger 30))
               (Inl ArtifactDoesNoteExistError)) sample_config) = Inr False
   \<and> snd (main (sample_collaborators (Inr sample_data) (Inr (challenger 21))
               (Inr (incumbent 23))) sample_config) = Inr True
   \<and> snd (main (sample_collaborators (Inr sample_data) (Inr (challenger 23))
               (Inr (incumbent 21))) sample_config) = Inr False
   \<and> snd (main (sample_collaborators (Inr sample_data) (Inr (challenger 30))
               (Inr unfitted_incumbent)) sample_config) = Inl (Raised ''NotFittedError'')"
  using promotion_decision
      [of "sample_collaborators (Inr sample_data) (Inr (challenger 15))
             (Inl ArtifactDoesNoteExistError)" sample_config sample_data "challenger 15"]
    promotion_decision
      [of "sample_collaborators (Inr sample_data) (Inr (challenger 30))
             (Inl ArtifactDoesNoteExistError)" sample_config sample_data "challenger 30"]
    promotion_decision
      [of "sample_collaborators (Inr sample_data) (Inr (challenger 21))
             (Inr (incumbent 23))" sample_config sample_data "challenger 21"]
    promotion_decision
      [of "sample_collaborators (Inr sample_data) (Inr (challenger 23))
             (Inr (incumbent 21))" sample_config sample_data "challenger 23"]
    promotion_decision
      [of "sample_collaborators (Inr sample_data) (Inr (challenger 30))
             (Inr unfitted_incumbent)" sample_config sample_data "challenger 30"]
  by (simp add: sample_loads sample_models sample_config_fields sample_gate
      sample_single_init sample_challenger_init sample_unfitted_init sample_passes
      challenger_model_is_better_def unfitted_incumbent_def)




text \<open>
  Claim C6. A run that completes with the decision \<open>d\<close> sends exactly one alert. Its
  level is \<open>INFO\<close> when \<open>d\<close> holds and \<open>WARN\<close> otherwise; its text is the message of
  the single-model gate when there is no production model, and that message followed by
  the message of the challenger gate when there is one. The model is promoted exactly when
  \<open>d\<close> holds.
\<close>

theorem completed_run_one_alert:
  assumes "main env cfg = (tr, Inr d)"
  shows "\<exists>td ch t ms body.
           read_dataframe_artifact env (test_data_name cfg) ''latest'' = Inr td
         \<and> get_model env (project_name cfg) (model_name cfg) ''latest'' = Inr ch
         \<and> SingleModelTest_init (get_metrics_mae env) (model ch) td (target_column cfg)
               (max_mae_to_promote cfg) = Inr t
         \<and> SingleModelTest_message (str_float env) t = Inr ms
         \<and> filter is_alert tr =
               [WandbAlert
                  (if d then ''Trained model version '' @ version ch @ '' promoted.''
                   else ''Trained model with version '' @ version ch @ '' not promoted.'')
                  body
                  (if d then INFO else WARN)]
         \<and> (get_model env (project_name cfg) (model_name cfg) ''prod'' =
                 Inl ArtifactDoesNoteExistError \<and> body = ms
             \<or> (\<exists>cur c. get_model env (project_name cfg) (model_name cfg) ''prod'' = Inr cur
                   \<and> ChallengerModelTest_init (get_metrics_mae env) (model ch) (model cur) td
                         (target_column cfg) = Inr c
                   \<and> body = ms @ '' '' @ ChallengerModelTest_message (str_float env) c))
         \<and> filter is_promotion tr = (if d then [PromoteToProd (version ch)] else [])"
  using assms
  by (auto simp: main_def Let_def log_promotion_status_def
      split: sum.splits option.splits if_splits)


lemma sample_run_dual_promoted:
  "main (sample_collaborators (Inr sample_data) (Inr (challenger 21)) (Inr (incumbent 23)))
     sample_config =
     ([WandbInit ''p'' ''test_and_promote_model'' ''e'',
       LoggerInfo ''Load hold out test data.'',
       LoggerInfo ''Loading latest trained model.'',
       LoggerInfo ''Loading current prod model if it exists.'',
       LoggerInfo ''Running single model tests.'',
       UseArtifact ''v2'',
       LoggerInfo ''Running model challenger comparison tests.'',
       UseArtifact ''v1'',
       PromoteToProd ''v2'',
       LoggerInfo ''Trained model version v2 promoted. The model has MAE of 6, which is under the max threshold of 10. The model passes all edge cases. Challenger model has MAE of 6, which is better than the current models performance of 8.'',
       WandbAlert ''Trained model version v2 promoted.''
         ''The model has MAE of 6, which is under the max threshold of 10. The model passes all edge cases. Challenger model has MAE of 6, which is better than the current models performance of 8.''
         INFO],
      Inr True)"
  by (simp add: main_def sample_loads sample_models sample_config_fields
      sample_single_init sample_challenger_init sample_passes sample_message
      challenger_model_is_better_def ChallengerModelTest_message_def
      log_promotion_status_def show_floor_def)

lemma sample_run_single_rejected:
  "main (sample_collaborators (Inr sample_data) (Inr (challenger 30))
          (Inl ArtifactDoesNoteExistError)) sample_config =
     ([WandbInit ''p'' ''test_and_promote_model'' ''e'',
       LoggerInfo ''Load hold out test data.'',
       LoggerInfo ''Loading latest trained model.'',
       LoggerInfo ''Loading current prod model if it exists.'',
       LoggerInfo ''Running single model tests.'',
       UseArtifact ''v2'',
       LoggerWarning ''Trained model with version v2 not promoted. The model has MAE of 15, which is under the max threshold of 10. The model passes all edge cases.'',
       WandbAlert ''Trained model with version v2 not promoted.''
         ''The model has MAE of 15, which is under the max threshold of 10. The model passes all edge cases.''
         WARN],
      Inr False)"
  by (simp add: main_def sample_loads sample_models sample_config_fields
      sample_single_init sample_passes sample_message
      log_promotion_status_def show_floor_def)

text \<open>
  The theorem at a run that promotes against a production model and at a run that does
  not promote without one.
\<close>

theorem completed_run_one_alert_witness:
  "(\<exists>tr. main (sample_collaborators (Inr sample_data) (Inr (challenger 21))
                 (Inr (incumbent 23))) sample_config = (tr, Inr True)
         \<and> filter is_alert tr =
             [WandbAlert ''Trained model version v2 promoted.''
                ''The model has MAE of 6, which is under the max threshold of 10. The model passes all edge cases. Challenger model has MAE of 6, which is better than the current models performance of 8.''
                INFO]
         \<and> filter is_promotion tr = [PromoteToProd ''v2''])
   \<and> (\<exists>tr. main (sample_collaborators (Inr sample_data) (Inr (challenger 30))
                 (Inl ArtifactDoesNoteExistError)) sample_config = (tr, Inr False)
         \<and> filter is_alert tr =
             [WandbAlert ''Trained model with version v2 not promoted.''
                ''The model has MAE of 15, which is under the max threshold of 10. The model passes all edge cases.''
                WARN]
         \<and> filter is_promotion tr = [])"
  using completed_run_one_alert [OF sample_run_dual_promoted]
    completed_run_one_alert [OF sample_run_single_rejected]
  by (simp add: sample_run_dual_promoted sample_run_single_rejected)

text \<open>
  Claim C5. When the load of the production model raises
  \<^verbatim>\<open>ArtifactDoesNoteExistError\<close>, the run goes on: its outcome is the verdict of the
  single-model gate, and the challenger comparison is not run. When the load of the test
  data or of the challenger raises, whatever the exception, the run ends with it.
\<close>

theorem missing_incumbent_recovered:
  "(read_dataframe_artifact env (test_data_name cfg) ''latest'' = Inr td
      \<longrightarrow> get_model env (project_name cfg) (model_name cfg) ''latest'' = Inr ch
      \<longrightarrow> ''prod'' \<notin> set (aliases ch)
      \<longrightarrow> get_model env (project_name cfg) (model_name cfg) ''prod'' =
            Inl ArtifactDoesNoteExistError
      \<longrightarrow> snd (main env cfg) =
             single_model_gate (get_metrics_mae env) (model ch) td (target_column cfg)
               (max_mae_to_promote cfg)
          \<and> LoggerInfo ''Running single model tests.'' \<in> set (fst (main env cfg))
          \<and> LoggerInfo ''Running model challenger comparison tests.''
              \<notin> set (fst (main env cfg)))
   \<and> (read_dataframe_artifact env (test_data_name cfg) ''latest'' = Inl e
      \<longrightarrow> snd (main env cfg) = Inl e)
   \<and> (read_dataframe_artifact env (test_data_name cfg) ''latest'' = Inr td
      \<longrightarrow> get_model env (project_name cfg) (model_name cfg) ''latest'' = Inl e
      \<longrightarrow> snd (main env cfg) = Inl e)"
proof (intro conjI impI)
  assume a: "read_dataframe_artifact env (test_data_name cfg) ''latest'' = Inr td"
    "get_model env (project_name cfg) (model_name cfg) ''latest'' = Inr ch"
    "''prod'' \<notin> set (aliases ch)"
    "get_model env (project_name cfg) (model_name cfg) ''prod'' = Inl ArtifactDoesNoteExistError"
  show "snd (main env cfg) =
          single_model_gate (get_metrics_mae env) (model ch) td (target_column cfg)
            (max_mae_to_promote cfg)"
    using a by (rule main_no_incumbent_result)
  show "LoggerInfo ''Running single model tests.'' \<in> set (fst (main env cfg))"
    using a by (simp add: main_def Let_def split: sum.splits)
  show "LoggerInfo ''Running model challenger comparison tests.'' \<notin> set (fst (main env cfg))"
    using a by (simp add: main_def Let_def log_promotion_status_def split: sum.splits)
next
  assume "read_dataframe_artifact env (test_data_name cfg) ''latest'' = Inl e"
  then show "snd (main env cfg) = Inl e"
    by (simp add: main_test_data_fails)
next
  assume "read_dataframe_artifact env (test_data_name cfg) ''latest'' = Inr td"
    and "get_model env (project_name cfg) (model_name cfg) ''latest'' = Inl e"
  then show "snd (main env cfg) = Inl e"
    by (simp add: main_challenger_fails)
qed

text \<open>
  The theorem at a run without production model, at a run without test data and at a run
  without challenger.
\<close>

theorem missing_incumbent_recovered_witness:
  "snd (main (sample_collaborators (Inr sample_data) (Inr (challenger 15))
               (Inl ArtifactDoesNoteExistError)) sample_config) = Inr True
   \<and> LoggerInfo ''Running model challenger comparison tests.''
       \<notin> set (fst (main (sample_collaborators (Inr sample_data) (Inr (challenger 15))
                           (Inl ArtifactDoesNoteExistError)) sample_config))
   \<and> snd (main (sample_collaborators (Inl ArtifactDoesNoteExistError) (Inr (challenger 15))
               (Inr (incumbent 23))) sample_config) = Inl ArtifactDoesNoteExistError
   \<and> snd (main (sample_collaborators (Inr sample_data) (Inl ArtifactDoesNoteExistError)
               (Inr (incumbent 23))) sample_config) = Inl ArtifactDoesNoteExistError"
  using missing_incumbent_recovered
      [of "sample_collaborators (Inr sample_data) (Inr (challenger 15))
             (Inl ArtifactDoesNoteExistError)" sample_config sample_data "challenger 15"]
    missing_incumbent_recovered
      [of "sample_collaborators (Inl ArtifactDoesNoteExistError) (Inr (challenger 15))
             (Inr (incumbent 23))" sample_config _ _ ArtifactDoesNoteExistError]
    missing_incumbent_recovered
      [of "sample_collaborators (Inr sample_data) (Inl ArtifactDoesNoteExistError)
             (Inr (incumbent 23))" sample_config sample_data _ ArtifactDoesNoteExistError]
  by (simp add: sample_loads sample_models sample_config_fields sample_gate)

text \<open>
  Claim C9. When the load of the test data or of the challenger raises, the run ends with
  that exception, and its events hold no promotion, no alert and no use of an artifact.
\<close>

theorem load_failure_no_side_effect:
  "(read_dataframe_artifact env (test_data_name cfg) ''latest'' = Inl e
      \<or> read_dataframe_artifact env (test_data_name cfg) ''latest'' = Inr td
        \<and> get_model env (project_name cfg) (model_name cfg) ''latest'' = Inl e)
   \<longrightarrow> snd (main env cfg) = Inl e
       \<and> filter is_promotion (fst (main env cfg)) = []
       \<and> filter is_alert (fst (main env cfg)) = []
       \<and> filter is_use_artifact (fst (main env cfg)) = []"
proof (intro impI, elim disjE conjE)
  assume "read_dataframe_artifact env (test_data_name cfg) ''latest'' = Inl e"
  then show "snd (main env cfg) = Inl e
       \<and> filter is_promotion (fst (main env cfg)) = []
       \<and> filter is_alert (fst (main env cfg)) = []
       \<and> filter is_use_artifact (fst (main env cfg)) = []"
    by (simp add: main_test_data_fails)
next
  assume "read_dataframe_artifact env (test_data_name cfg) ''latest'' = Inr td"
    and "get_model env (project_name cfg) (model_name cfg) ''latest'' = Inl e"
  then show "snd (main env cfg) = Inl e
       \<and> filter is_promotion (fst (main env cfg)) = []
       \<and> filter is_alert (fst (main env cfg)) = []
       \<and> filter is_use_artifact (fst (main env cfg)) = []"
    by (simp add: main_challenger_fails)
qed

text \<open>
  The theorem at a run whose test data cannot be read and at a run without challenger.
\<close>

theorem load_failure_no_side_effect_witness:
  "filter is_promotion
     (fst (main (sample_collaborators (Inl (Raised ''CommError'')) (Inr (challenger 15))
                   (Inr (incumbent 23))) sample_config)) = []
   \<and> snd (main (sample_collaborators (Inl (Raised ''CommError'')) (Inr (challenger 15))
                   (Inr (incumbent 23))) sample_config) = Inl (Raised ''CommError'')
   \<and> filter is_promotion
     (fst (main (sample_collaborators (Inr sample_data) (Inl ArtifactDoesNoteExistError)
                   (Inr (incumbent 23))) sample_config)) = []
   \<and> filter is_alert
     (fst (main (sample_collaborators (Inr sample_data) (Inl ArtifactDoesNoteExistError)
                   (Inr (incumbent 23))) sample_config)) = []"
  using load_failure_no_side_effect
      [of "sample_collaborators (Inl (Raised ''CommError'')) (Inr (challenger 15))
             (Inr (incumbent 23))" sample_config "Raised ''CommError''"]
    load_failure_no_side_effect
      [of "sample_collaborators (Inr sample_data) (Inl ArtifactDoesNoteExistError)
             (Inr (incumbent 23))" sample_config ArtifactDoesNoteExistError sample_data]
  by (simp add: sample_loads sample_models sample_config_fields)

end
